theory Spec2Isabelle
  imports Complex_Main "HOL-Library.Sublist" "HOL-Library.Log_Nat"
begin

section \<open>The Pirate Weather provider of ha-wall-clock-card\<close>

text \<open>
  A shallow embedding of \<^verbatim>\<open>src/weather-providers/pirateweather-provider.ts\<close>.
  The file is TypeScript, so what runs is JavaScript: numbers are IEEE-754 doubles,
  \<^verbatim>\<open>a || b\<close> yields \<^verbatim>\<open>b\<close> exactly when \<^verbatim>\<open>a\<close> is falsy, and
  reading a property of an object literal also finds what the literal inherits from
  \<^verbatim>\<open>Object.prototype\<close>. These three facts of the language are written out below,
  since the properties of the provider depend on them.
\<close>

subsection \<open>Property lookup on an object literal\<close>

text \<open>
  The value of \<^verbatim>\<open>table[key]\<close>: \<open>Undefined\<close> when nothing is found, \<open>Val v\<close> for an
  own entry of the literal, and \<open>ProtoMember key\<close> for a member the literal inherits
  from \<^verbatim>\<open>Object.prototype\<close> (a built-in function, or the prototype object itself
  for \<^verbatim>\<open>__proto__\<close>).
\<close>

datatype 'a jsval = Undefined | Val 'a | ProtoMember string

text \<open>The property names of \<^verbatim>\<open>Object.prototype\<close> in a standard runtime.\<close>

definition object_prototype :: "string list" where
  "object_prototype =
     [''constructor'', ''hasOwnProperty'', ''isPrototypeOf'', ''propertyIsEnumerable'',
      ''toLocaleString'', ''toString'', ''valueOf'', ''__proto__'',
      ''__defineGetter__'', ''__defineSetter__'', ''__lookupGetter__'', ''__lookupSetter__'']"

text \<open>\<^verbatim>\<open>table[key]\<close>: own entries first, then the prototype.\<close>

definition get_property :: "(string \<times> 'a) list \<Rightarrow> string \<Rightarrow> 'a jsval" where
  "get_property table key =
     (case map_of table key of
        Some v \<Rightarrow> Val v
      | None \<Rightarrow> if key \<in> set object_prototype then ProtoMember key else Undefined)"

text \<open>
  \<^verbatim>\<open>a || b\<close> where \<^verbatim>\<open>a\<close> is the result of a lookup: \<open>truthy\<close> says which own
  values are truthy; inherited members are functions or objects, hence truthy;
  \<^verbatim>\<open>undefined\<close> is falsy.
\<close>

definition or_else :: "('a \<Rightarrow> bool) \<Rightarrow> 'a jsval \<Rightarrow> 'a \<Rightarrow> 'a jsval" where
  "or_else truthy a b =
     (case a of
        Undefined \<Rightarrow> Val b
      | Val v \<Rightarrow> if truthy v then Val v else Val b
      | ProtoMember k \<Rightarrow> ProtoMember k)"

text \<open>A string is truthy unless it is empty.\<close>

definition truthy_string :: "string \<Rightarrow> bool" where
  "truthy_string s = (s \<noteq> [])"

subsection \<open>The unified condition\<close>

text \<open>
  Modelled from the spec: the enum \<^verbatim>\<open>Weather\<close> is declared in
  \<^verbatim>\<open>../image-sources\<close>, which is not among the sources. Its members are those the
  provider names; the spec calls it a closed enum shared by all providers. The members
  have string values in the card's configuration, so each of them is taken to be truthy.
\<close>

datatype Weather =
  Sunny | ClearNight | Rainy | Snowy | Windy | Foggy | Cloudy | PartlyCloudy
  | PartlyCloudyNight | Hail | Lightning | Exceptional | All

definition truthy_weather :: "Weather \<Rightarrow> bool" where
  "truthy_weather w = True"

subsection \<open>The three lookup tables\<close>

definition iconMap :: "(string \<times> Weather) list" where
  "iconMap =
     [(''clear-day'', Sunny),
      (''clear-night'', ClearNight),
      (''rain'', Rainy),
      (''snow'', Snowy),
      (''sleet'', Snowy),
      (''wind'', Windy),
      (''fog'', Foggy),
      (''cloudy'', Cloudy),
      (''partly-cloudy-day'', PartlyCloudy),
      (''partly-cloudy-night'', PartlyCloudyNight),
      (''hail'', Hail),
      (''thunderstorm'', Lightning),
      (''tornado'', Exceptional)]"

definition mapIconToCondition :: "string \<Rightarrow> Weather jsval" where
  "mapIconToCondition icon = or_else truthy_weather (get_property iconMap icon) All"

definition baseIconUrl :: string where
  "baseIconUrl =
     ''https://raw.githubusercontent.com/manifestinteractive/weather-underground-icons/master/dist/icons/white/png/64x64''"

definition iconMapping :: "(string \<times> string) list" where
  "iconMapping =
     [(''clear-day'', baseIconUrl @ ''/clear.png''),
      (''clear-night'', baseIconUrl @ ''/nt_clear.png''),
      (''rain'', baseIconUrl @ ''/rain.png''),
      (''snow'', baseIconUrl @ ''/snow.png''),
      (''sleet'', baseIconUrl @ ''/sleet.png''),
      (''wind'', baseIconUrl @ ''/wind.png''),
      (''fog'', baseIconUrl @ ''/fog.png''),
      (''cloudy'', baseIconUrl @ ''/cloudy.png''),
      (''partly-cloudy-day'', baseIconUrl @ ''/partlycloudy.png''),
      (''partly-cloudy-night'', baseIconUrl @ ''/nt_partlycloudy.png''),
      (''hail'', baseIconUrl @ ''/sleet.png''),
      (''thunderstorm'', baseIconUrl @ ''/tstorms.png''),
      (''tornado'', baseIconUrl @ ''/tornado.png'')]"

definition getIconUrl :: "string \<Rightarrow> string jsval" where
  "getIconUrl icon =
     or_else truthy_string (get_property iconMapping icon) (baseIconUrl @ ''/cloudy.png'')"

definition formatCondition :: "string \<Rightarrow> string" where
  "formatCondition summary = (if truthy_string summary then summary else ''Unknown'')"

definition unitsMap :: "(string \<times> string) list" where
  "unitsMap =
     [(''us'', ''imperial''),
      (''si'', ''metric''),
      (''ca'', ''metric''),
      (''uk2'', ''hybrid'')]"

definition getUnitsDescription :: "string \<Rightarrow> string jsval" where
  "getUnitsDescription units = or_else truthy_string (get_property unitsMap units) ''imperial''"

subsection \<open>Numbers\<close>

text \<open>
  A JavaScript number is an IEEE-754 binary64 value: not-a-number, an infinity, or a
  finite value, given here by the rational it denotes. The two zeros are one value
  \<open>Fin 0\<close>: they are equal under \<^verbatim>\<open>===\<close> and both falsy, and nothing in the
  provider tells them apart. A numeric field of a parsed JSON object or of the
  configuration is a \<open>number option\<close>, \<open>None\<close> when the field is absent
  (\<^verbatim>\<open>undefined\<close>).
\<close>

datatype number = NaN | PosInf | NegInf | Fin rat

text \<open>\<open>ilog2 a\<close> is the binary exponent of a positive rational: \<open>2^e \<le> a < 2^(e+1)\<close>.\<close>

definition ilog2 :: "rat \<Rightarrow> int" where
  "ilog2 a = (if 1 \<le> a then bitlen \<lfloor>a\<rfloor> - 1 else - bitlen (\<lceil>1 / a\<rceil> - 1))"

definition round_half_even :: "rat \<Rightarrow> int" where
  "round_half_even x =
     (let n = \<lfloor>x\<rfloor>; r = x - of_int n
      in if r < 1 / 2 then n else if 1 / 2 < r then n + 1 else if even n then n else n + 1)"

text \<open>
  Rounding of an exact result to binary64, to nearest with ties to even: 53 significant
  bits, exponents from \<open>-1022\<close> (below which the spacing stays \<open>2^-1074\<close>) to \<open>1023\<close>
  (above which the result is an infinity).
\<close>

definition round_double :: "rat \<Rightarrow> number" where
  "round_double x =
     (if x = 0 then Fin 0
      else let a = \<bar>x\<bar>;
               e = max (ilog2 a) (- 1022);
               q = 2 powi (e - 52);
               m = round_half_even (a / q)
           in if 1024 \<le> e \<or> (e = 1023 \<and> 2 ^ 53 \<le> m) then (if 0 < x then PosInf else NegInf)
              else Fin (sgn x * (of_int m * q)))"

text \<open>The operator \<^verbatim>\<open>*\<close> on two numbers.\<close>

fun js_mul :: "number \<Rightarrow> number \<Rightarrow> number" where
  "js_mul (Fin a) (Fin b) = round_double (a * b)"
| "js_mul NaN _ = NaN"
| "js_mul _ NaN = NaN"
| "js_mul (Fin a) PosInf = (if a = 0 then NaN else if 0 < a then PosInf else NegInf)"
| "js_mul (Fin a) NegInf = (if a = 0 then NaN else if 0 < a then NegInf else PosInf)"
| "js_mul PosInf (Fin b) = (if b = 0 then NaN else if 0 < b then PosInf else NegInf)"
| "js_mul NegInf (Fin b) = (if b = 0 then NaN else if 0 < b then NegInf else PosInf)"
| "js_mul PosInf PosInf = PosInf"
| "js_mul PosInf NegInf = NegInf"
| "js_mul NegInf PosInf = NegInf"
| "js_mul NegInf NegInf = PosInf"

text \<open>The operand conversion of \<^verbatim>\<open>*\<close>: \<^verbatim>\<open>undefined\<close> becomes not-a-number.\<close>

definition to_number :: "number option \<Rightarrow> number" where
  "to_number v = (case v of None \<Rightarrow> NaN | Some n \<Rightarrow> n)"

text \<open>\<^verbatim>\<open>field * k\<close> for a numeric field and a literal \<open>k\<close>.\<close>

definition field_times :: "number option \<Rightarrow> rat \<Rightarrow> number" where
  "field_times v k = js_mul (to_number v) (Fin k)"

text \<open>Truthiness of a numeric field: \<^verbatim>\<open>undefined\<close>, not-a-number and zero are falsy.\<close>

definition truthy_number :: "number option \<Rightarrow> bool" where
  "truthy_number v =
     (case v of None \<Rightarrow> False | Some NaN \<Rightarrow> False | Some (Fin x) \<Rightarrow> x \<noteq> 0 | Some _ \<Rightarrow> True)"

text \<open>\<^verbatim>\<open>a || b\<close> on two numeric fields.\<close>

definition or_number :: "number option \<Rightarrow> number option \<Rightarrow> number option" where
  "or_number a b = (if truthy_number a then a else b)"

text \<open>\<^verbatim>\<open>new Date(v)\<close>, kept as the constructor applied to its argument.\<close>

datatype Date = Date number

subsection \<open>The vendor's response\<close>

text \<open>
  The interfaces of the source. A field the interface types as an object or an array
  (\<^verbatim>\<open>currently\<close>, \<^verbatim>\<open>daily\<close>, \<^verbatim>\<open>daily.data\<close>) may be missing from the body
  that was parsed, and reading through it then throws; such a field is an \<open>option\<close>.
\<close>

record PirateWeatherCurrently =
  time :: "number option"
  summary :: string
  icon :: string
  temperature :: "number option"
  apparentTemperature :: "number option"
  humidity :: "number option"
  pressure :: "number option"
  windSpeed :: "number option"
  windGust :: "number option"
  windBearing :: "number option"
  cloudCover :: "number option"
  uvIndex :: "number option"
  visibility :: "number option"

record PirateWeatherDaily =
  time :: "number option"
  summary :: string
  icon :: string
  temperatureHigh :: "number option"
  temperatureLow :: "number option"
  temperatureMax :: "number option"
  temperatureMin :: "number option"
  apparentTemperatureHigh :: "number option"
  apparentTemperatureLow :: "number option"
  humidity :: "number option"
  pressure :: "number option"
  windSpeed :: "number option"
  windGust :: "number option"
  windBearing :: "number option"
  cloudCover :: "number option"
  uvIndex :: "number option"

record PirateWeatherDailyBlock =
  summary :: string
  icon :: string
  data :: "PirateWeatherDaily list option"

record PirateWeatherResponse =
  latitude :: "number option"
  longitude :: "number option"
  timezone :: string
  currently :: "PirateWeatherCurrently option"
  daily :: "PirateWeatherDailyBlock option"

subsection \<open>The unified weather data\<close>

text \<open>
  Modelled from the spec: \<^verbatim>\<open>WeatherData\<close>, \<^verbatim>\<open>DailyWeather\<close> and
  \<^verbatim>\<open>WeatherProviderConfig\<close> are declared in \<^verbatim>\<open>./types\<close>, which is not among
  the sources. The records have the fields the provider writes and reads. A field
  filled by \<^verbatim>\<open>*\<close> is a \<open>number\<close>; a field copied from the vendor is a
  \<open>number option\<close>; a field filled from a lookup table is a \<open>jsval\<close>.
\<close>

record CurrentWeather =
  temperature :: "number option"
  feelsLike :: "number option"
  condition :: string
  conditionUnified :: "Weather jsval"
  icon :: "string jsval"
  humidity :: number
  pressure :: "number option"
  windSpeed :: "number option"
  windGust :: "number option"
  windBearing :: "number option"
  cloudCover :: number
  uvIndex :: "number option"
  visibility :: "number option"

record DailyWeather =
  date :: Date
  temperatureMax :: "number option"
  temperatureMin :: "number option"
  condition :: string
  conditionUnified :: "Weather jsval"
  icon :: "string jsval"
  humidity :: number
  pressure :: "number option"
  windSpeed :: "number option"
  windGust :: "number option"
  windBearing :: "number option"
  cloudCover :: number
  uvIndex :: "number option"

record Location =
  latitude :: "number option"
  longitude :: "number option"
  timezone :: string

record WeatherData =
  current :: CurrentWeather
  daily :: "DailyWeather list"
  location :: Location
  units :: "string jsval"

record WeatherProviderConfig =
  apiKey :: "string option"
  latitude :: "number option"
  longitude :: "number option"
  units :: "string option"

subsection \<open>What can be thrown, and the runtime around the provider\<close>

text \<open>
  A thrown value is an instance of \<^verbatim>\<open>Error\<close>, with the name of its class and its
  message, or some other value. The provider itself only throws \<^verbatim>\<open>new Error(...)\<close>.
\<close>

datatype thrown = ErrorObject string string | NonError

datatype json_outcome = JsonRejects thrown | JsonResolves PirateWeatherResponse

text \<open>
  The response of the transport: status, status text, and what \<^verbatim>\<open>response.json()\<close>
  settles to. \<^verbatim>\<open>response.ok\<close> is the runtime's getter: true for a status from 200
  to 299.
\<close>

record Response =
  status :: nat
  statusText :: string
  json :: json_outcome

definition ok :: "Response \<Rightarrow> bool" where
  "ok response = (200 \<le> status response \<and> status response \<le> 299)"

datatype fetch_outcome = FetchRejects thrown | FetchResolves Response

text \<open>
  What the provider takes from its surroundings: the transport \<^verbatim>\<open>fetch\<close>, the
  conversion of a number to a string inside a template literal, and the message the
  engine gives the \<^verbatim>\<open>TypeError\<close> for reading the named property of
  \<^verbatim>\<open>undefined\<close>.
\<close>

record runtime =
  fetch :: "string \<Rightarrow> fetch_outcome"
  number_to_string :: "number \<Rightarrow> string"
  type_error_message :: "string \<Rightarrow> string"

text \<open>A status code inside a template literal: its decimal digits.\<close>

fun nat_to_string :: "nat \<Rightarrow> string" where
  "nat_to_string n =
     (if n < 10 then [''0123456789'' ! n]
      else nat_to_string (n div 10) @ [''0123456789'' ! (n mod 10)])"

declare nat_to_string.simps [simp del]

text \<open>A numeric field, and a string field, inside a template literal.\<close>

definition template_number :: "runtime \<Rightarrow> number option \<Rightarrow> string" where
  "template_number rt v = (case v of None \<Rightarrow> ''undefined'' | Some n \<Rightarrow> number_to_string rt n)"

definition template_string :: "string option \<Rightarrow> string" where
  "template_string v = (case v of None \<Rightarrow> ''undefined'' | Some s \<Rightarrow> s)"

text \<open>Truthiness of a string field that may be absent.\<close>

definition truthy_field :: "string option \<Rightarrow> bool" where
  "truthy_field v = (case v of None \<Rightarrow> False | Some s \<Rightarrow> truthy_string s)"

text \<open>\<^verbatim>\<open>field || literal\<close> for a string field.\<close>

definition or_string :: "string option \<Rightarrow> string \<Rightarrow> string" where
  "or_string v b = (if truthy_field v then template_string v else b)"

subsection \<open>The provider\<close>

text \<open>
  The parameters and locals \<^verbatim>\<open>data\<close> and \<^verbatim>\<open>units\<close> of the source are \<open>d\<close>
  and \<open>u\<close> below, the names being those of record fields here.
\<close>

definition baseUrl :: string where
  "baseUrl = ''https://api.pirateweather.net/forecast''"

definition getDefaultConfig :: WeatherProviderConfig where
  "getDefaultConfig =
     \<lparr> WeatherProviderConfig.apiKey = Some [],
       WeatherProviderConfig.latitude = Some (Fin 0),
       WeatherProviderConfig.longitude = Some (Fin 0),
       WeatherProviderConfig.units = Some ''us'' \<rparr>"

definition transformDailyWeather :: "PirateWeatherDaily \<Rightarrow> string \<Rightarrow> DailyWeather" where
  "transformDailyWeather day u =
     \<lparr> DailyWeather.date = Date (field_times (PirateWeatherDaily.time day) 1000),
       DailyWeather.temperatureMax =
         or_number (PirateWeatherDaily.temperatureMax day) (PirateWeatherDaily.temperatureHigh day),
       DailyWeather.temperatureMin =
         or_number (PirateWeatherDaily.temperatureMin day) (PirateWeatherDaily.temperatureLow day),
       DailyWeather.condition = formatCondition (PirateWeatherDaily.summary day),
       DailyWeather.conditionUnified = mapIconToCondition (PirateWeatherDaily.icon day),
       DailyWeather.icon = getIconUrl (PirateWeatherDaily.icon day),
       DailyWeather.humidity = field_times (PirateWeatherDaily.humidity day) 100,
       DailyWeather.pressure = PirateWeatherDaily.pressure day,
       DailyWeather.windSpeed = PirateWeatherDaily.windSpeed day,
       DailyWeather.windGust = PirateWeatherDaily.windGust day,
       DailyWeather.windBearing = PirateWeatherDaily.windBearing day,
       DailyWeather.cloudCover = field_times (PirateWeatherDaily.cloudCover day) 100,
       DailyWeather.uvIndex = PirateWeatherDaily.uvIndex day \<rparr>"

text \<open>
  \<^verbatim>\<open>transformResponse\<close> reads \<^verbatim>\<open>data.daily.data\<close> first, then
  \<^verbatim>\<open>currently.icon\<close>, and calls \<^verbatim>\<open>daily.slice\<close> while it builds the result; each
  throws a \<^verbatim>\<open>TypeError\<close> when the object read from is missing.
  \<^verbatim>\<open>daily.slice(0, 7)\<close> is \<open>take 7\<close>.
\<close>

definition transformResponse ::
  "runtime \<Rightarrow> PirateWeatherResponse \<Rightarrow> string \<Rightarrow> thrown + WeatherData" where
  "transformResponse rt d u =
     (case PirateWeatherResponse.daily d of
        None \<Rightarrow> Inl (ErrorObject ''TypeError'' (type_error_message rt ''data''))
      | Some block \<Rightarrow>
          (case currently d of
             None \<Rightarrow> Inl (ErrorObject ''TypeError'' (type_error_message rt ''icon''))
           | Some cur \<Rightarrow>
               (case PirateWeatherDailyBlock.data block of
                  None \<Rightarrow> Inl (ErrorObject ''TypeError'' (type_error_message rt ''slice''))
                | Some days \<Rightarrow>
                    Inr \<lparr> WeatherData.current =
                            \<lparr> CurrentWeather.temperature = PirateWeatherCurrently.temperature cur,
                              CurrentWeather.feelsLike = apparentTemperature cur,
                              CurrentWeather.condition =
                                formatCondition (PirateWeatherCurrently.summary cur),
                              CurrentWeather.conditionUnified =
                                mapIconToCondition (PirateWeatherCurrently.icon cur),
                              CurrentWeather.icon = getIconUrl (PirateWeatherCurrently.icon cur),
                              CurrentWeather.humidity =
                                field_times (PirateWeatherCurrently.humidity cur) 100,
                              CurrentWeather.pressure = PirateWeatherCurrently.pressure cur,
                              CurrentWeather.windSpeed = PirateWeatherCurrently.windSpeed cur,
                              CurrentWeather.windGust = PirateWeatherCurrently.windGust cur,
                              CurrentWeather.windBearing = PirateWeatherCurrently.windBearing cur,
                              CurrentWeather.cloudCover =
                                field_times (PirateWeatherCurrently.cloudCover cur) 100,
                              CurrentWeather.uvIndex = PirateWeatherCurrently.uvIndex cur,
                              CurrentWeather.visibility = PirateWeatherCurrently.visibility cur \<rparr>,
                          WeatherData.daily =
                            map (\<lambda>day. transformDailyWeather day u) (take 7 days),
                          WeatherData.location =
                            \<lparr> Location.latitude = PirateWeatherResponse.latitude d,
                              Location.longitude = PirateWeatherResponse.longitude d,
                              Location.timezone = PirateWeatherResponse.timezone d \<rparr>,
                          WeatherData.units = getUnitsDescription u \<rparr>)))"

text \<open>The \<^verbatim>\<open>catch\<close> clause of \<^verbatim>\<open>fetchWeatherAsync\<close>.\<close>

definition catch_clause :: "thrown \<Rightarrow> thrown" where
  "catch_clause error =
     (case error of
        ErrorObject name message \<Rightarrow>
          ErrorObject ''Error'' (''Failed to fetch Pirate Weather data: '' @ message)
      | NonError \<Rightarrow> ErrorObject ''Error'' ''Failed to fetch Pirate Weather data'')"

text \<open>The body of the \<^verbatim>\<open>try\<close> block, for the URL that was built.\<close>

definition try_block :: "runtime \<Rightarrow> string \<Rightarrow> string \<Rightarrow> thrown + WeatherData" where
  "try_block rt url u =
     (case fetch rt url of
        FetchRejects error \<Rightarrow> Inl error
      | FetchResolves response \<Rightarrow>
          if \<not> ok response then
            Inl (ErrorObject ''Error''
                  (''Pirate Weather API error: '' @ nat_to_string (status response)
                     @ '' '' @ statusText response))
          else
            (case json response of
               JsonRejects error \<Rightarrow> Inl error
             | JsonResolves d \<Rightarrow> transformResponse rt d u))"

definition build_url :: "runtime \<Rightarrow> WeatherProviderConfig \<Rightarrow> string \<Rightarrow> string" where
  "build_url rt config u =
     baseUrl @ ''/'' @ template_string (apiKey config)
       @ ''/'' @ template_number rt (WeatherProviderConfig.latitude config)
       @ '','' @ template_number rt (WeatherProviderConfig.longitude config)
       @ ''?units='' @ u"

text \<open>
  \<^verbatim>\<open>fetchWeatherAsync\<close>: the result is the list of URLs handed to the transport, in
  order, and what the returned promise settles to (\<open>Inl\<close> when it rejects).
\<close>

definition fetchWeatherAsync ::
  "runtime \<Rightarrow> WeatherProviderConfig \<Rightarrow> string list \<times> (thrown + WeatherData)" where
  "fetchWeatherAsync rt config =
     (if \<not> truthy_field (apiKey config) then
        ([], Inl (ErrorObject ''Error'' ''Pirate Weather API key is required''))
      else if \<not> truthy_number (WeatherProviderConfig.latitude config)
              \<or> \<not> truthy_number (WeatherProviderConfig.longitude config) then
        ([], Inl (ErrorObject ''Error'' ''Latitude and longitude are required''))
      else
        let u = or_string (WeatherProviderConfig.units config) ''us'';
            url = build_url rt config u
        in ([url],
            (case try_block rt url u of
               Inl error \<Rightarrow> Inl (catch_clause error)
             | Inr result \<Rightarrow> Inr result)))"

subsection \<open>Representable values\<close>

text \<open>
  The finite doubles: an integer of less than 53 bits times a power of two between
  \<open>2^-1074\<close> and \<open>2^971\<close>.
\<close>

definition is_double :: "rat \<Rightarrow> bool" where
  "is_double x = (\<exists>m e. \<bar>m\<bar> < 2 ^ 53 \<and> - 1074 \<le> e \<and> e \<le> 971 \<and> x = of_int m * 2 powi e)"

text \<open>The double that the JSON text \<^verbatim>\<open>0.07\<close> denotes.\<close>

definition seven_hundredths :: rat where
  "seven_hundredths = 5044031582654956 / 2 ^ 56"

subsection \<open>Sample inputs\<close>

text \<open>The sample of the spec: a clear day at 40, -105 with humidity 0.5, cloud cover 0.25.\<close>

definition sample_currently :: PirateWeatherCurrently where
  "sample_currently =
     \<lparr> PirateWeatherCurrently.time = Some (Fin 1700000000),
       PirateWeatherCurrently.summary = ''Clear'',
       PirateWeatherCurrently.icon = ''clear-day'',
       PirateWeatherCurrently.temperature = Some (Fin 72),
       apparentTemperature = Some (Fin 70),
       PirateWeatherCurrently.humidity = Some (Fin (1 / 2)),
       PirateWeatherCurrently.pressure = Some (Fin 1013),
       PirateWeatherCurrently.windSpeed = Some (Fin 5),
       PirateWeatherCurrently.windGust = None,
       PirateWeatherCurrently.windBearing = Some (Fin 180),
       PirateWeatherCurrently.cloudCover = Some (Fin (1 / 4)),
       PirateWeatherCurrently.uvIndex = Some (Fin 3),
       PirateWeatherCurrently.visibility = Some (Fin 10) \<rparr>"

text \<open>A day with \<^verbatim>\<open>temperatureMax\<close> present and no \<^verbatim>\<open>temperatureMin\<close>.\<close>

definition sample_day :: PirateWeatherDaily where
  "sample_day =
     \<lparr> PirateWeatherDaily.time = Some (Fin 1700000000),
       PirateWeatherDaily.summary = ''Rain'',
       PirateWeatherDaily.icon = ''rain'',
       temperatureHigh = Some (Fin 5),
       temperatureLow = Some (Fin (- 3)),
       PirateWeatherDaily.temperatureMax = Some (Fin 6),
       PirateWeatherDaily.temperatureMin = None,
       apparentTemperatureHigh = Some (Fin 4),
       apparentTemperatureLow = Some (Fin (- 5)),
       PirateWeatherDaily.humidity = Some (Fin (1 / 2)),
       PirateWeatherDaily.pressure = Some (Fin 1013),
       PirateWeatherDaily.windSpeed = Some (Fin 5),
       PirateWeatherDaily.windGust = None,
       PirateWeatherDaily.windBearing = Some (Fin 180),
       PirateWeatherDaily.cloudCover = Some (Fin (1 / 4)),
       PirateWeatherDaily.uvIndex = Some (Fin 3) \<rparr>"

text \<open>A day whose maximum is 0 degrees, with a high of 5 and no minimum.\<close>

definition freezing_day :: PirateWeatherDaily where
  "freezing_day = sample_day \<lparr> PirateWeatherDaily.temperatureMax := Some (Fin 0) \<rparr>"

text \<open>A day, and a current block, with humidity and cloud cover 0.07.\<close>

definition humid_day :: PirateWeatherDaily where
  "humid_day =
     sample_day \<lparr> PirateWeatherDaily.humidity := Some (Fin seven_hundredths),
                  PirateWeatherDaily.cloudCover := Some (Fin seven_hundredths) \<rparr>"

definition humid_currently :: PirateWeatherCurrently where
  "humid_currently =
     sample_currently \<lparr> PirateWeatherCurrently.humidity := Some (Fin seven_hundredths),
                        PirateWeatherCurrently.cloudCover := Some (Fin seven_hundredths) \<rparr>"

definition sample_response :: "PirateWeatherCurrently \<Rightarrow> PirateWeatherDaily list \<Rightarrow> PirateWeatherResponse" where
  "sample_response cur days =
     \<lparr> PirateWeatherResponse.latitude = Some (Fin 40),
       PirateWeatherResponse.longitude = Some (Fin (- 105)),
       PirateWeatherResponse.timezone = ''America/Denver'',
       currently = Some cur,
       PirateWeatherResponse.daily =
         Some \<lparr> PirateWeatherDailyBlock.summary = ''Rain all week'',
                PirateWeatherDailyBlock.icon = ''rain'',
                PirateWeatherDailyBlock.data = Some days \<rparr> \<rparr>"

text \<open>A body that parses but has no \<^verbatim>\<open>currently\<close> block.\<close>

definition truncated_response :: PirateWeatherResponse where
  "truncated_response = (sample_response sample_currently []) \<lparr> currently := None \<rparr>"

definition sample_config :: WeatherProviderConfig where
  "sample_config =
     \<lparr> WeatherProviderConfig.apiKey = Some ''key'',
       WeatherProviderConfig.latitude = Some (Fin 40),
       WeatherProviderConfig.longitude = Some (Fin (- 105)),
       WeatherProviderConfig.units = Some ''us'' \<rparr>"

text \<open>A configuration with a key and no latitude.\<close>

definition unlocated_config :: WeatherProviderConfig where
  "unlocated_config = sample_config \<lparr> WeatherProviderConfig.latitude := None \<rparr>"

text \<open>A runtime whose transport settles every request the same way.\<close>

definition sample_runtime :: "fetch_outcome \<Rightarrow> runtime" where
  "sample_runtime outcome =
     \<lparr> fetch = (\<lambda>url. outcome),
       number_to_string = (\<lambda>n. if n = Fin 40 then ''40'' else ''-105''),
       type_error_message =
         (\<lambda>p. ''Cannot read properties of undefined (reading '' @ p @ '')'') \<rparr>"

definition unauthorized :: Response where
  "unauthorized =
     \<lparr> status = 401, statusText = ''Unauthorized'',
       json = JsonRejects (ErrorObject ''SyntaxError'' ''Unexpected end of JSON input'') \<rparr>"

definition malformed :: Response where
  "malformed =
     \<lparr> status = 200, statusText = ''OK'',
       json = JsonRejects (ErrorObject ''SyntaxError'' ''Unexpected token < in JSON'') \<rparr>"

definition truncated :: Response where
  "truncated = \<lparr> status = 200, statusText = ''OK'', json = JsonResolves truncated_response \<rparr>"

text \<open>Eight days, one more than the provider keeps.\<close>

definition sample_week :: "PirateWeatherDaily list" where
  "sample_week =
     [sample_day, freezing_day, humid_day, sample_day,
      freezing_day, humid_day, sample_day, humid_day]"

definition forecast :: Response where
  "forecast =
     \<lparr> status = 200, statusText = ''OK'',
       json = JsonResolves (sample_response sample_currently sample_week) \<rparr>"

section \<open>Properties\<close>

subsection \<open>The lookup tables\<close>

lemma distinct_iconMap: "distinct (map fst iconMap)"
  by (simp add: iconMap_def)

lemma mapIconToCondition_table: "(k, w) \<in> set iconMap \<Longrightarrow> mapIconToCondition k = Val w"
  using distinct_iconMap
  by (simp add: mapIconToCondition_def get_property_def or_else_def truthy_weather_def)

lemma mapIconToCondition_entries:
  "mapIconToCondition ''clear-day'' = Val Sunny"
  "mapIconToCondition ''clear-night'' = Val ClearNight"
  "mapIconToCondition ''rain'' = Val Rainy"
  "mapIconToCondition ''snow'' = Val Snowy"
  "mapIconToCondition ''sleet'' = Val Snowy"
  "mapIconToCondition ''wind'' = Val Windy"
  "mapIconToCondition ''fog'' = Val Foggy"
  "mapIconToCondition ''cloudy'' = Val Cloudy"
  "mapIconToCondition ''partly-cloudy-day'' = Val PartlyCloudy"
  "mapIconToCondition ''partly-cloudy-night'' = Val PartlyCloudyNight"
  "mapIconToCondition ''hail'' = Val Hail"
  "mapIconToCondition ''thunderstorm'' = Val Lightning"
  "mapIconToCondition ''tornado'' = Val Exceptional"
  "mapIconToCondition ''unknown-code'' = Val All"
  by (simp_all add: mapIconToCondition_def get_property_def or_else_def iconMap_def object_prototype_def truthy_weather_def)

lemma mapIconToCondition_fallback:
  assumes "k \<notin> fst ` set iconMap" and "k \<notin> set object_prototype"
  shows "mapIconToCondition k = Val All"
proof -
  have "map_of iconMap k = None"
    using assms(1) by (simp add: map_of_eq_None_iff)
  with assms(2) show ?thesis
    by (simp add: mapIconToCondition_def get_property_def or_else_def)
qed

lemma mapIconToCondition_inherited:
  assumes "k \<notin> fst ` set iconMap" and "k \<in> set object_prototype"
  shows "mapIconToCondition k = ProtoMember k"
proof -
  have "map_of iconMap k = None"
    using assms(1) by (simp add: map_of_eq_None_iff)
  with assms(2) show ?thesis
    by (simp add: mapIconToCondition_def get_property_def or_else_def)
qed

text \<open>
  Claim C1: every code of the condition table maps to the condition the table gives, and
  every other string maps to \<open>All\<close>. The first half is \<open>mapIconToCondition_table\<close>
  above. The second half holds for the strings that are not property names of
  \<^verbatim>\<open>Object.prototype\<close> (\<open>mapIconToCondition_fallback\<close>) and fails for those that
  are: the string \<^verbatim>\<open>constructor\<close> is not in the table, the lookup
  \<^verbatim>\<open>iconMap[icon]\<close> finds the inherited \<^verbatim>\<open>Object.prototype.constructor\<close>, a
  function and so truthy, and \<^verbatim>\<open>||\<close> returns it instead of \<open>All\<close>.
\<close>

theorem mapIconToCondition_constructor:
  "''constructor'' \<notin> fst ` set iconMap
   \<and> mapIconToCondition ''constructor'' = ProtoMember ''constructor''
   \<and> mapIconToCondition ''constructor'' \<noteq> Val All"
  by (simp add: mapIconToCondition_def get_property_def or_else_def iconMap_def object_prototype_def)

lemma getUnitsDescription_entries:
  "getUnitsDescription ''us'' = Val ''imperial''"
  "getUnitsDescription ''si'' = Val ''metric''"
  "getUnitsDescription ''ca'' = Val ''metric''"
  "getUnitsDescription ''uk2'' = Val ''hybrid''"
  by (simp_all add: getUnitsDescription_def get_property_def or_else_def unitsMap_def truthy_string_def)

lemma getUnitsDescription_fallback:
  assumes "u \<notin> fst ` set unitsMap" and "u \<notin> set object_prototype"
  shows "getUnitsDescription u = Val ''imperial''"
proof -
  have "map_of unitsMap u = None"
    using assms(1) by (simp add: map_of_eq_None_iff)
  with assms(2) show ?thesis
    by (simp add: getUnitsDescription_def get_property_def or_else_def)
qed

text \<open>
  Claim C8: the four unit codes of the table map to their labels, and every other code
  maps to \<^verbatim>\<open>imperial\<close>. The four entries are \<open>getUnitsDescription_entries\<close>; the
  default holds for codes that are not property names of \<^verbatim>\<open>Object.prototype\<close>
  (\<open>getUnitsDescription_fallback\<close>). For the code \<^verbatim>\<open>toString\<close>, which is not in
  the table, \<^verbatim>\<open>unitsMap[units]\<close> finds the inherited function and the result is
  that function, not \<^verbatim>\<open>imperial\<close>.
\<close>

theorem getUnitsDescription_toString:
  "''toString'' \<notin> fst ` set unitsMap
   \<and> getUnitsDescription ''toString'' = ProtoMember ''toString''
   \<and> getUnitsDescription ''toString'' \<noteq> Val ''imperial''"
  by (simp add: getUnitsDescription_def get_property_def or_else_def unitsMap_def object_prototype_def)

lemma getIconUrl_fallback:
  assumes "k \<notin> fst ` set iconMapping" and "k \<notin> set object_prototype"
  shows "getIconUrl k = Val (baseIconUrl @ ''/cloudy.png'')"
proof -
  have "map_of iconMapping k = None"
    using assms(1) by (simp add: map_of_eq_None_iff)
  with assms(2) show ?thesis
    by (simp add: getIconUrl_def get_property_def or_else_def)
qed

text \<open>
  Claim C9: every icon code that is not in the icon table resolves to the generic cloudy
  image. This holds for codes that are not property names of \<^verbatim>\<open>Object.prototype\<close>
  (\<open>getIconUrl_fallback\<close>). For the code \<^verbatim>\<open>valueOf\<close>, which is not in the table,
  \<^verbatim>\<open>iconMapping[icon]\<close> finds the inherited function and the result is that
  function, not the cloudy image.
\<close>

theorem getIconUrl_valueOf:
  "''valueOf'' \<notin> fst ` set iconMapping
   \<and> getIconUrl ''valueOf'' = ProtoMember ''valueOf''
   \<and> getIconUrl ''valueOf'' \<noteq> Val (baseIconUrl @ ''/cloudy.png'')"
  by (simp add: getIconUrl_def get_property_def or_else_def iconMapping_def object_prototype_def)

subsection \<open>Validation of the configuration\<close>

lemma falsy_number_iff:
  "\<not> truthy_number v \<longleftrightarrow> v = None \<or> v = Some NaN \<or> v = Some (Fin 0)"
  by (auto simp: truthy_number_def split: option.splits number.splits)

lemma falsy_field_iff: "\<not> truthy_field v \<longleftrightarrow> v = None \<or> v = Some []"
  by (auto simp: truthy_field_def truthy_string_def split: option.splits)

lemma fetchWeatherAsync_falsy_key:
  "\<not> truthy_field (apiKey config) \<Longrightarrow>
     fetchWeatherAsync rt config = ([], Inl (ErrorObject ''Error'' ''Pirate Weather API key is required''))"
  by (simp add: fetchWeatherAsync_def)

lemma fetchWeatherAsync_falsy_coordinate:
  "truthy_field (apiKey config) \<Longrightarrow>
   \<not> truthy_number (WeatherProviderConfig.latitude config)
     \<or> \<not> truthy_number (WeatherProviderConfig.longitude config) \<Longrightarrow>
     fetchWeatherAsync rt config = ([], Inl (ErrorObject ''Error'' ''Latitude and longitude are required''))"
  by (simp add: fetchWeatherAsync_def)

text \<open>
  Claim C2: when the key is the empty string, or a coordinate is zero or undefined, the
  promise rejects with one of the two configuration errors and no URL has been handed to
  the transport.
\<close>

theorem configuration_checked_before_fetch:
  assumes "apiKey config = Some []
           \<or> WeatherProviderConfig.latitude config = Some (Fin 0)
           \<or> WeatherProviderConfig.latitude config = None
           \<or> WeatherProviderConfig.longitude config = Some (Fin 0)
           \<or> WeatherProviderConfig.longitude config = None"
  shows "fst (fetchWeatherAsync rt config) = []
         \<and> (snd (fetchWeatherAsync rt config)
               = Inl (ErrorObject ''Error'' ''Pirate Weather API key is required'')
            \<or> snd (fetchWeatherAsync rt config)
               = Inl (ErrorObject ''Error'' ''Latitude and longitude are required''))"
proof (cases "truthy_field (apiKey config)")
  case False
  then show ?thesis by (simp add: fetchWeatherAsync_falsy_key)
next
  case True
  then have "apiKey config \<noteq> Some []" by (auto simp: truthy_field_def truthy_string_def)
  with assms have "\<not> truthy_number (WeatherProviderConfig.latitude config)
     \<or> \<not> truthy_number (WeatherProviderConfig.longitude config)"
    by (auto simp: falsy_number_iff)
  with True show ?thesis by (simp add: fetchWeatherAsync_falsy_coordinate)
qed

text \<open>
  Witness for C2: the default configuration (empty key, zero coordinates) and a
  configuration with a key and no latitude.
\<close>

theorem configuration_checked_before_fetch_witness:
  "apiKey getDefaultConfig = Some []
   \<and> fetchWeatherAsync (sample_runtime (FetchResolves malformed)) getDefaultConfig
       = ([], Inl (ErrorObject ''Error'' ''Pirate Weather API key is required''))
   \<and> WeatherProviderConfig.latitude unlocated_config = None
   \<and> fetchWeatherAsync (sample_runtime (FetchResolves malformed)) unlocated_config
       = ([], Inl (ErrorObject ''Error'' ''Latitude and longitude are required''))"
proof -
  have k: "apiKey getDefaultConfig = Some []" by (simp add: getDefaultConfig_def)
  have l: "WeatherProviderConfig.latitude unlocated_config = None"
    by (simp add: unlocated_config_def)
  have a: "truthy_field (apiKey unlocated_config)"
    by (simp add: unlocated_config_def sample_config_def truthy_field_def truthy_string_def)
  have "\<not> truthy_field (apiKey getDefaultConfig)"
    by (simp add: getDefaultConfig_def truthy_field_def truthy_string_def)
  note 1 = configuration_checked_before_fetch
    [of getDefaultConfig "sample_runtime (FetchResolves malformed)", OF disjI1, OF k]
  note 2 = configuration_checked_before_fetch
    [of unlocated_config "sample_runtime (FetchResolves malformed)", OF disjI2, OF disjI2, OF disjI1, OF l]
  have 3: "snd (fetchWeatherAsync (sample_runtime (FetchResolves malformed)) getDefaultConfig)
    \<noteq> Inl (ErrorObject ''Error'' ''Latitude and longitude are required'')"
    by (simp add: fetchWeatherAsync_def getDefaultConfig_def truthy_field_def truthy_string_def)
  have 4: "snd (fetchWeatherAsync (sample_runtime (FetchResolves malformed)) unlocated_config)
    \<noteq> Inl (ErrorObject ''Error'' ''Pirate Weather API key is required'')"
    using a l by (simp add: fetchWeatherAsync_def truthy_number_def)
  show ?thesis using k l 1 2 3 4 by (auto simp: prod_eq_iff)
qed

subsection \<open>The request and its failures\<close>

lemma fetchWeatherAsync_valid:
  assumes "truthy_field (apiKey config)"
    and "truthy_number (WeatherProviderConfig.latitude config)"
    and "truthy_number (WeatherProviderConfig.longitude config)"
  shows "fetchWeatherAsync rt config =
     ([build_url rt config (or_string (WeatherProviderConfig.units config) ''us'')],
      case try_block rt (build_url rt config (or_string (WeatherProviderConfig.units config) ''us''))
             (or_string (WeatherProviderConfig.units config) ''us'') of
        Inl error \<Rightarrow> Inl (catch_clause error) | Inr result \<Rightarrow> Inr result)"
  using assms by (simp add: fetchWeatherAsync_def Let_def)

lemma nat_to_string_401: "nat_to_string 401 = ''401''"
  by code_simp

lemma catch_clause_changes: "catch_clause error \<noteq> error"
  by (cases error) (simp_all add: catch_clause_def)

lemma sample_config_valid:
  "truthy_field (apiKey sample_config)"
  "truthy_number (WeatherProviderConfig.latitude sample_config)"
  "truthy_number (WeatherProviderConfig.longitude sample_config)"
  by (simp_all add: sample_config_def truthy_field_def truthy_string_def truthy_number_def)

lemma fetchWeatherAsync_rejects_with_Error:
  "snd (fetchWeatherAsync rt config) = Inl error \<Longrightarrow> \<exists>message. error = ErrorObject ''Error'' message"
  by (auto simp: fetchWeatherAsync_def Let_def catch_clause_def
      split: if_splits sum.splits thrown.splits)

text \<open>
  Claim C6: when the transport resolves with a status outside 200 to 299, the promise
  rejects with an error whose message contains the decimal status code and the status
  text; for status 401 it contains \<^verbatim>\<open>401\<close>.
\<close>

theorem non_success_status_is_reported:
  assumes "truthy_field (apiKey config)"
    and "truthy_number (WeatherProviderConfig.latitude config)"
    and "truthy_number (WeatherProviderConfig.longitude config)"
    and "fetch rt (build_url rt config (or_string (WeatherProviderConfig.units config) ''us''))
           = FetchResolves response"
    and "\<not> (200 \<le> status response \<and> status response \<le> 299)"
  shows "\<exists>message. snd (fetchWeatherAsync rt config) = Inl (ErrorObject ''Error'' message)
           \<and> sublist (nat_to_string (status response)) message
           \<and> sublist (statusText response) message
           \<and> (status response = 401 \<longrightarrow> sublist ''401'' message)"
proof -
  let ?p = "''Failed to fetch Pirate Weather data: '' @ ''Pirate Weather API error: ''"
  let ?m = "?p @ nat_to_string (status response) @ ('' '' @ statusText response)"
  have r: "snd (fetchWeatherAsync rt config) = Inl (ErrorObject ''Error'' ?m)"
    using assms(4,5)
    by (simp add: fetchWeatherAsync_valid [OF assms(1-3)] try_block_def ok_def catch_clause_def)
  have s1: "sublist (nat_to_string (status response)) ?m"
    by (rule sublist_appendI)
  have "sublist (statusText response)
          ((?p @ nat_to_string (status response) @ '' '') @ statusText response @ [])"
    by (rule sublist_appendI)
  then have s2: "sublist (statusText response) ?m" by simp
  have s3: "status response = 401 \<longrightarrow> sublist ''401'' ?m"
    using s1 nat_to_string_401 by auto
  show ?thesis using r s1 s2 s3 by blast
qed

text \<open>
  Witness for C6: a 401 response.
\<close>

theorem non_success_status_is_reported_witness:
  "fetch (sample_runtime (FetchResolves unauthorized))
      (build_url (sample_runtime (FetchResolves unauthorized)) sample_config
         (or_string (WeatherProviderConfig.units sample_config) ''us''))
     = FetchResolves unauthorized
   \<and> status unauthorized = 401
   \<and> (\<exists>message. snd (fetchWeatherAsync (sample_runtime (FetchResolves unauthorized)) sample_config)
          = Inl (ErrorObject ''Error'' message)
        \<and> sublist ''401'' message \<and> sublist ''Unauthorized'' message)"
proof -
  have f: "fetch (sample_runtime (FetchResolves unauthorized))
      (build_url (sample_runtime (FetchResolves unauthorized)) sample_config
         (or_string (WeatherProviderConfig.units sample_config) ''us''))
     = FetchResolves unauthorized"
    by (simp add: sample_runtime_def)
  have s: "status unauthorized = 401" "statusText unauthorized = ''Unauthorized''"
    by (simp_all add: unauthorized_def)
  have n: "\<not> (200 \<le> status unauthorized \<and> status unauthorized \<le> 299)"
    by (simp add: unauthorized_def)
  show ?thesis
    using non_success_status_is_reported [OF sample_config_valid f n] f s by auto
qed

text \<open>
  Claim C7: when \<^verbatim>\<open>response.json()\<close> rejects, or \<^verbatim>\<open>transformResponse\<close> throws,
  the promise rejects with a new \<^verbatim>\<open>Error\<close> whose message is the fetch-failure prefix
  followed by the message of what was thrown, or the generic fetch-failure message when
  what was thrown is not an \<^verbatim>\<open>Error\<close>; it never rejects with the thrown value itself.
\<close>

theorem parse_and_transform_failures_wrapped:
  assumes "truthy_field (apiKey config)"
    and "truthy_number (WeatherProviderConfig.latitude config)"
    and "truthy_number (WeatherProviderConfig.longitude config)"
    and "fetch rt (build_url rt config (or_string (WeatherProviderConfig.units config) ''us''))
           = FetchResolves response"
    and "200 \<le> status response \<and> status response \<le> 299"
    and "json response = JsonRejects error
         \<or> (\<exists>d. json response = JsonResolves d
                \<and> transformResponse rt d (or_string (WeatherProviderConfig.units config) ''us'')
                    = Inl error)"
  shows "snd (fetchWeatherAsync rt config) =
           Inl (ErrorObject ''Error''
                 (case error of
                    ErrorObject name message \<Rightarrow> ''Failed to fetch Pirate Weather data: '' @ message
                  | NonError \<Rightarrow> ''Failed to fetch Pirate Weather data''))
         \<and> (\<exists>message. snd (fetchWeatherAsync rt config) = Inl (ErrorObject ''Error'' message)
               \<and> prefix ''Failed to fetch Pirate Weather data'' message)
         \<and> snd (fetchWeatherAsync rt config) \<noteq> Inl error"
proof -
  let ?u = "or_string (WeatherProviderConfig.units config) ''us''"
  have t: "try_block rt (build_url rt config ?u) ?u = Inl error"
    using assms(4,5,6) by (auto simp: try_block_def ok_def)
  have r: "snd (fetchWeatherAsync rt config) = Inl (catch_clause error)"
    by (simp add: fetchWeatherAsync_valid [OF assms(1-3)] t)
  have c: "catch_clause error = ErrorObject ''Error''
                 (case error of
                    ErrorObject name message \<Rightarrow> ''Failed to fetch Pirate Weather data: '' @ message
                  | NonError \<Rightarrow> ''Failed to fetch Pirate Weather data'')"
    by (cases error) (simp_all add: catch_clause_def)
  have p: "prefix ''Failed to fetch Pirate Weather data''
             (case error of
                ErrorObject name message \<Rightarrow> ''Failed to fetch Pirate Weather data: '' @ message
              | NonError \<Rightarrow> ''Failed to fetch Pirate Weather data'')"
    by (cases error) simp_all
  have n: "catch_clause error \<noteq> error" by (rule catch_clause_changes)
  show ?thesis using r c p n by auto
qed

text \<open>
  Witness for C7: a body that is not JSON, and a body without a \<^verbatim>\<open>currently\<close> block.
\<close>

theorem parse_and_transform_failures_wrapped_witness:
  "fetch (sample_runtime (FetchResolves malformed))
      (build_url (sample_runtime (FetchResolves malformed)) sample_config
         (or_string (WeatherProviderConfig.units sample_config) ''us''))
     = FetchResolves malformed
   \<and> json malformed = JsonRejects (ErrorObject ''SyntaxError'' ''Unexpected token < in JSON'')
   \<and> snd (fetchWeatherAsync (sample_runtime (FetchResolves malformed)) sample_config)
       = Inl (ErrorObject ''Error''
               ''Failed to fetch Pirate Weather data: Unexpected token < in JSON'')
   \<and> json truncated = JsonResolves truncated_response
   \<and> transformResponse (sample_runtime (FetchResolves truncated)) truncated_response ''us''
       = Inl (ErrorObject ''TypeError'' ''Cannot read properties of undefined (reading icon)'')
   \<and> snd (fetchWeatherAsync (sample_runtime (FetchResolves truncated)) sample_config)
       = Inl (ErrorObject ''Error''
               ''Failed to fetch Pirate Weather data: Cannot read properties of undefined (reading icon)'')"
proof -
  let ?e = "ErrorObject ''SyntaxError'' ''Unexpected token < in JSON''"
  let ?t = "ErrorObject ''TypeError'' ''Cannot read properties of undefined (reading icon)''"
  have u: "or_string (WeatherProviderConfig.units sample_config) ''us'' = ''us''"
    by (simp add: sample_config_def or_string_def truthy_field_def truthy_string_def
        template_string_def)
  have f1: "fetch (sample_runtime (FetchResolves malformed))
      (build_url (sample_runtime (FetchResolves malformed)) sample_config
         (or_string (WeatherProviderConfig.units sample_config) ''us''))
     = FetchResolves malformed"
    by (simp add: sample_runtime_def)
  have f2: "fetch (sample_runtime (FetchResolves truncated))
      (build_url (sample_runtime (FetchResolves truncated)) sample_config
         (or_string (WeatherProviderConfig.units sample_config) ''us''))
     = FetchResolves truncated"
    by (simp add: sample_runtime_def)
  have o1: "200 \<le> status malformed \<and> status malformed \<le> 299"
    by (simp add: malformed_def)
  have o2: "200 \<le> status truncated \<and> status truncated \<le> 299"
    by (simp add: truncated_def)
  have j1: "json malformed = JsonRejects ?e" by (simp add: malformed_def)
  have j2: "json truncated = JsonResolves truncated_response" by (simp add: truncated_def)
  have t2: "transformResponse (sample_runtime (FetchResolves truncated)) truncated_response ''us''
       = Inl ?t"
    by (simp add: transformResponse_def truncated_response_def sample_response_def
        sample_runtime_def)
  have d2: "json truncated = JsonRejects ?t
         \<or> (\<exists>d. json truncated = JsonResolves d
                \<and> transformResponse (sample_runtime (FetchResolves truncated)) d
                     (or_string (WeatherProviderConfig.units sample_config) ''us'') = Inl ?t)"
    using j2 t2 u by simp
  note 1 = parse_and_transform_failures_wrapped [OF sample_config_valid f1 o1 disjI1, OF j1]
  note 2 = parse_and_transform_failures_wrapped [OF sample_config_valid f2 o2 d2]
  show ?thesis using f1 j1 j2 t2 1 2 by simp
qed

text \<open>
  Claim C10: the error for a non-success status is thrown inside the \<^verbatim>\<open>try\<close> block,
  so the message that reaches the caller is the fetch-failure prefix followed by the
  status message; and whatever makes the promise reject, the rejection is a plain
  \<^verbatim>\<open>Error\<close>, so a network error and a parse error differ in their message only.
\<close>

theorem network_error_carries_fetch_prefix:
  assumes "truthy_field (apiKey config)"
    and "truthy_number (WeatherProviderConfig.latitude config)"
    and "truthy_number (WeatherProviderConfig.longitude config)"
    and "fetch rt (build_url rt config (or_string (WeatherProviderConfig.units config) ''us''))
           = FetchResolves response"
    and "\<not> (200 \<le> status response \<and> status response \<le> 299)"
  shows "snd (fetchWeatherAsync rt config) =
           Inl (ErrorObject ''Error''
                 (''Failed to fetch Pirate Weather data: ''
                    @ ''Pirate Weather API error: '' @ nat_to_string (status response)
                    @ '' '' @ statusText response))
         \<and> (\<forall>rt' config' error.
               snd (fetchWeatherAsync rt' config') = Inl error \<longrightarrow>
                 (\<exists>message. error = ErrorObject ''Error'' message))"
proof -
  have "snd (fetchWeatherAsync rt config) =
           Inl (ErrorObject ''Error''
                 (''Failed to fetch Pirate Weather data: ''
                    @ ''Pirate Weather API error: '' @ nat_to_string (status response)
                    @ '' '' @ statusText response))"
    using assms(4,5)
    by (simp add: fetchWeatherAsync_valid [OF assms(1-3)] try_block_def ok_def catch_clause_def)
  then show ?thesis
    using fetchWeatherAsync_rejects_with_Error by blast
qed

text \<open>
  Witness for C10: a 401 response, and next to it a body that is not JSON.
\<close>

theorem network_error_carries_fetch_prefix_witness:
  "fetch (sample_runtime (FetchResolves unauthorized))
      (build_url (sample_runtime (FetchResolves unauthorized)) sample_config
         (or_string (WeatherProviderConfig.units sample_config) ''us''))
     = FetchResolves unauthorized
   \<and> \<not> (200 \<le> status unauthorized \<and> status unauthorized \<le> 299)
   \<and> snd (fetchWeatherAsync (sample_runtime (FetchResolves unauthorized)) sample_config)
       = Inl (ErrorObject ''Error''
               ''Failed to fetch Pirate Weather data: Pirate Weather API error: 401 Unauthorized'')
   \<and> snd (fetchWeatherAsync (sample_runtime (FetchResolves malformed)) sample_config)
       = Inl (ErrorObject ''Error''
               ''Failed to fetch Pirate Weather data: Unexpected token < in JSON'')
   \<and> (\<exists>message. ErrorObject ''Error''
                    ''Failed to fetch Pirate Weather data: Unexpected token < in JSON''
                  = ErrorObject ''Error'' message)"
proof -
  have f: "fetch (sample_runtime (FetchResolves unauthorized))
      (build_url (sample_runtime (FetchResolves unauthorized)) sample_config
         (or_string (WeatherProviderConfig.units sample_config) ''us''))
     = FetchResolves unauthorized"
    by (simp add: sample_runtime_def)
  have n: "\<not> (200 \<le> status unauthorized \<and> status unauthorized \<le> 299)"
    by (simp add: unauthorized_def)
  have s: "status unauthorized = 401" "statusText unauthorized = ''Unauthorized''"
    by (simp_all add: unauthorized_def)
  have m: "snd (fetchWeatherAsync (sample_runtime (FetchResolves malformed)) sample_config)
       = Inl (ErrorObject ''Error''
               ''Failed to fetch Pirate Weather data: Unexpected token < in JSON'')"
    by (simp add: fetchWeatherAsync_valid [OF sample_config_valid] try_block_def ok_def
        catch_clause_def sample_runtime_def malformed_def)
  note t = network_error_carries_fetch_prefix [OF sample_config_valid f n]
  have 1: "snd (fetchWeatherAsync (sample_runtime (FetchResolves unauthorized)) sample_config)
       = Inl (ErrorObject ''Error''
               ''Failed to fetch Pirate Weather data: Pirate Weather API error: 401 Unauthorized'')"
    using t by (simp add: s nat_to_string_401)
  have 2: "\<exists>message. ErrorObject ''Error''
                    ''Failed to fetch Pirate Weather data: Unexpected token < in JSON''
                  = ErrorObject ''Error'' message"
    using t m by blast
  show ?thesis using f n 1 m 2 by blast
qed

subsection \<open>The daily forecast\<close>

text \<open>
  Claim C4: the unified daily sequence is the image of the first seven vendor entries,
  in their order: seven entries when the vendor sends seven or more, all of them
  otherwise, entry \<open>i\<close> made from vendor entry \<open>i\<close>.
\<close>

theorem daily_first_seven_in_order:
  assumes "currently d = Some cur"
    and "PirateWeatherResponse.daily d = Some block"
    and "PirateWeatherDailyBlock.data block = Some days"
  shows "\<exists>out. transformResponse rt d u = Inr out
           \<and> WeatherData.daily out = map (\<lambda>day. transformDailyWeather day u) (take 7 days)
           \<and> length (WeatherData.daily out) = min 7 (length days)
           \<and> (7 \<le> length days \<longrightarrow> length (WeatherData.daily out) = 7)
           \<and> (length days < 7 \<longrightarrow> length (WeatherData.daily out) = length days)
           \<and> (\<forall>i < length (WeatherData.daily out).
                 WeatherData.daily out ! i = transformDailyWeather (days ! i) u)"
  using assms by (simp add: transformResponse_def)

text \<open>
  Witness for C4: eight days, and two days.
\<close>

theorem daily_first_seven_in_order_witness:
  "7 \<le> length sample_week
   \<and> (\<exists>out. transformResponse (sample_runtime (FetchResolves forecast))
               (sample_response sample_currently sample_week) ''us'' = Inr out
         \<and> length (WeatherData.daily out) = 7
         \<and> WeatherData.daily out ! 1 = transformDailyWeather freezing_day ''us'')
   \<and> length [sample_day, humid_day] < 7
   \<and> (\<exists>out. transformResponse (sample_runtime (FetchResolves forecast))
               (sample_response sample_currently [sample_day, humid_day]) ''us'' = Inr out
         \<and> length (WeatherData.daily out) = 2
         \<and> WeatherData.daily out ! 1 = transformDailyWeather humid_day ''us'')"
proof -
  have w: "length sample_week = 8" by (simp add: sample_week_def)
  have w1: "sample_week ! 1 = freezing_day" by (simp add: sample_week_def)
  obtain out where o: "transformResponse (sample_runtime (FetchResolves forecast))
               (sample_response sample_currently sample_week) ''us'' = Inr out"
     "length (WeatherData.daily out) = min 7 (length sample_week)"
     "\<forall>i < length (WeatherData.daily out).
         WeatherData.daily out ! i = transformDailyWeather (sample_week ! i) ''us''"
    using daily_first_seven_in_order
      [of "sample_response sample_currently sample_week" sample_currently _ sample_week
          "sample_runtime (FetchResolves forecast)" "''us''"]
    by (auto simp: sample_response_def)
  obtain out2 where o2: "transformResponse (sample_runtime (FetchResolves forecast))
               (sample_response sample_currently [sample_day, humid_day]) ''us'' = Inr out2"
     "length (WeatherData.daily out2) = min 7 (length [sample_day, humid_day])"
     "\<forall>i < length (WeatherData.daily out2).
         WeatherData.daily out2 ! i = transformDailyWeather ([sample_day, humid_day] ! i) ''us''"
    using daily_first_seven_in_order
      [of "sample_response sample_currently [sample_day, humid_day]" sample_currently _
          "[sample_day, humid_day]" "sample_runtime (FetchResolves forecast)" "''us''"]
    by (auto simp: sample_response_def)
  have a: "length (WeatherData.daily out) = 7" using o(2) w by simp
  then have b: "WeatherData.daily out ! 1 = transformDailyWeather freezing_day ''us''"
    using o(3) w1 by simp
  have a2: "length (WeatherData.daily out2) = 2" using o2(2) by simp
  then have b2: "WeatherData.daily out2 ! 1 = transformDailyWeather humid_day ''us''"
    using o2(3) by simp
  show ?thesis using w o(1) a b o2(1) a2 b2 by simp
qed

text \<open>
  Counterexample to claim C5 as stated: a day whose \<^verbatim>\<open>temperatureMax\<close> is present
  and is 0, with \<^verbatim>\<open>temperatureHigh\<close> 5. The unified maximum is 5, not the
  \<^verbatim>\<open>temperatureMax\<close> that is present.
\<close>

theorem temperatureMax_zero_is_replaced:
  "PirateWeatherDaily.temperatureMax freezing_day = Some (Fin 0)
   \<and> temperatureHigh freezing_day = Some (Fin 5)
   \<and> DailyWeather.temperatureMax (transformDailyWeather freezing_day ''us'') = Some (Fin 5)
   \<and> DailyWeather.temperatureMax (transformDailyWeather freezing_day ''us'')
       \<noteq> PirateWeatherDaily.temperatureMax freezing_day"
  by (simp add: freezing_day_def sample_day_def transformDailyWeather_def or_number_def
      truthy_number_def)

text \<open>
  Claim C5, amended: the unified maximum is \<^verbatim>\<open>temperatureMax\<close> when that is truthy
  (present, not zero, not NaN) and \<^verbatim>\<open>temperatureHigh\<close> otherwise; the unified
  minimum is \<^verbatim>\<open>temperatureMin\<close> when that is truthy and \<^verbatim>\<open>temperatureLow\<close>
  otherwise.
\<close>

theorem temperature_prefers_truthy_max_min:
  "(truthy_number (PirateWeatherDaily.temperatureMax day) \<longrightarrow>
      DailyWeather.temperatureMax (transformDailyWeather day u)
        = PirateWeatherDaily.temperatureMax day)
   \<and> (\<not> truthy_number (PirateWeatherDaily.temperatureMax day) \<longrightarrow>
      DailyWeather.temperatureMax (transformDailyWeather day u) = temperatureHigh day)
   \<and> (truthy_number (PirateWeatherDaily.temperatureMin day) \<longrightarrow>
      DailyWeather.temperatureMin (transformDailyWeather day u)
        = PirateWeatherDaily.temperatureMin day)
   \<and> (\<not> truthy_number (PirateWeatherDaily.temperatureMin day) \<longrightarrow>
      DailyWeather.temperatureMin (transformDailyWeather day u) = temperatureLow day)"
  by (simp add: transformDailyWeather_def or_number_def)

text \<open>
  Witness for C5: a day with maximum 6 and no minimum, the day with maximum 0, and a day
  with minimum -4.
\<close>

theorem temperature_prefers_truthy_max_min_witness:
  "truthy_number (PirateWeatherDaily.temperatureMax sample_day)
   \<and> DailyWeather.temperatureMax (transformDailyWeather sample_day ''us'') = Some (Fin 6)
   \<and> \<not> truthy_number (PirateWeatherDaily.temperatureMin sample_day)
   \<and> DailyWeather.temperatureMin (transformDailyWeather sample_day ''us'') = Some (Fin (- 3))
   \<and> \<not> truthy_number (PirateWeatherDaily.temperatureMax freezing_day)
   \<and> DailyWeather.temperatureMax (transformDailyWeather freezing_day ''us'') = Some (Fin 5)
   \<and> truthy_number (PirateWeatherDaily.temperatureMin (sample_day \<lparr> PirateWeatherDaily.temperatureMin := Some (Fin (- 4)) \<rparr>))
   \<and> DailyWeather.temperatureMin (transformDailyWeather (sample_day \<lparr> PirateWeatherDaily.temperatureMin := Some (Fin (- 4)) \<rparr>) ''us'') = Some (Fin (- 4))"
proof -
  have 1: "truthy_number (PirateWeatherDaily.temperatureMax sample_day)"
    and 2: "\<not> truthy_number (PirateWeatherDaily.temperatureMin sample_day)"
    and 3: "\<not> truthy_number (PirateWeatherDaily.temperatureMax freezing_day)"
    and 4: "truthy_number (PirateWeatherDaily.temperatureMin (sample_day \<lparr> PirateWeatherDaily.temperatureMin := Some (Fin (- 4)) \<rparr>))"
    by (simp_all add: sample_day_def freezing_day_def truthy_number_def)
  have 5: "PirateWeatherDaily.temperatureMax sample_day = Some (Fin 6)"
    "temperatureLow sample_day = Some (Fin (- 3))"
    "temperatureHigh freezing_day = Some (Fin 5)"
    by (simp_all add: sample_day_def freezing_day_def)
  show ?thesis
    using 1 2 3 4 5
      temperature_prefers_truthy_max_min [of sample_day "''us''"]
      temperature_prefers_truthy_max_min [of freezing_day "''us''"]
      temperature_prefers_truthy_max_min [of "sample_day \<lparr> PirateWeatherDaily.temperatureMin := Some (Fin (- 4)) \<rparr>" "''us''"]
    by simp
qed

subsection \<open>Rounding of products\<close>

lemma two_powi_nat: "0 \<le> b \<Longrightarrow> (2::rat) powi b = 2 ^ nat b"
  by (simp add: power_int_def)

lemma two_powi_neg: "0 \<le> b \<Longrightarrow> (2::rat) powi (- b) = 1 / 2 ^ nat b"
  by (simp add: power_int_minus_divide two_powi_nat)

lemma ilog2_bounds:
  assumes "0 < a"
  shows "2 powi (ilog2 a) \<le> a \<and> a < 2 powi (ilog2 a + 1)"
proof (cases "1 \<le> a")
  case True
  define n where "n = \<lfloor>a\<rfloor>"
  define b where "b = bitlen n"
  have n1: "1 \<le> n" using True by (simp add: n_def le_floor_iff)
  then have bb: "2 ^ nat (b - 1) \<le> n \<and> n < 2 ^ nat b"
    unfolding b_def using bitlen_bounds [of n] by simp
  have b1: "1 \<le> b"
    unfolding b_def using n1 bitlen_ge_iff_power [of 1 n] by simp
  have il: "ilog2 a = b - 1" using True by (simp add: ilog2_def n_def b_def)
  have "(2::rat) ^ nat (b - 1) = of_int (2 ^ nat (b - 1))" by simp
  also have "\<dots> \<le> of_int n" using bb by (simp only: of_int_le_iff)
  also have "\<dots> \<le> a" by (simp add: n_def)
  finally have lo: "2 powi (b - 1) \<le> a" using b1 by (simp add: two_powi_nat)
  have "n + 1 \<le> 2 ^ nat b" using bb by simp
  then have "(of_int (n + 1) :: rat) \<le> of_int (2 ^ nat b)" by (simp only: of_int_le_iff)
  moreover have "a < of_int (n + 1)" unfolding n_def by linarith
  ultimately have "a < 2 ^ nat b" by simp
  then have hi: "a < 2 powi b" using b1 by (simp add: two_powi_nat)
  show ?thesis using lo hi il by simp
next
  case False
  define y where "y = 1 / a"
  define k where "k = \<lceil>y\<rceil> - 1"
  define b where "b = bitlen k"
  have y1: "1 < y" using False assms by (simp add: y_def)
  have k1: "1 \<le> k" unfolding k_def using y1 by (simp add: less_ceiling_iff)
  have bb: "2 ^ nat (b - 1) \<le> k \<and> k < 2 ^ nat b"
    unfolding b_def using bitlen_bounds [of k] k1 by simp
  have b1: "1 \<le> b"
    unfolding b_def using k1 bitlen_ge_iff_power [of 1 k] by simp
  have il: "ilog2 a = - b" using False by (simp add: ilog2_def k_def b_def y_def)
  have ky: "of_int k < y \<and> y \<le> of_int k + 1"
    unfolding k_def using ceiling_correct [of y] by simp
  have "k + 1 \<le> 2 ^ nat b" using bb by simp
  then have "(of_int (k + 1) :: rat) \<le> of_int (2 ^ nat b)" by (simp only: of_int_le_iff)
  then have "y \<le> 2 ^ nat b" using ky by simp
  then have "1 / 2 ^ nat b \<le> a"
    using assms by (simp add: y_def field_simps)
  then have lo: "2 powi (- b) \<le> a" using b1 by (simp add: two_powi_neg)
  have "(2::rat) ^ nat (b - 1) = of_int (2 ^ nat (b - 1))" by simp
  also have "\<dots> \<le> of_int k" using bb by (simp only: of_int_le_iff)
  also have "\<dots> < y" using ky by blast
  finally have "a < 1 / 2 ^ nat (b - 1)"
    using assms by (simp add: y_def field_simps)
  moreover have "(2::rat) powi (- b + 1) = 1 / 2 ^ nat (b - 1)"
    using two_powi_neg [of "b - 1"] b1 by simp
  ultimately have hi: "a < 2 powi (- b + 1)" by simp
  show ?thesis using lo hi il by simp
qed

lemma ilog2_unique:
  assumes "0 < a" and "2 powi e \<le> a" and "a < 2 powi (e + 1)"
  shows "ilog2 a = e"
proof -
  have b: "2 powi (ilog2 a) \<le> a \<and> a < 2 powi (ilog2 a + 1)"
    using ilog2_bounds [OF assms(1)] .
  have "(2::rat) powi (ilog2 a) < 2 powi (e + 1)" using b assms(3) by simp
  then have 1: "ilog2 a < e + 1"
    using power_int_increasing [of "e + 1" "ilog2 a" "2::rat"] by (cases "ilog2 a < e + 1") auto
  have "(2::rat) powi e < 2 powi (ilog2 a + 1)" using b assms(2) by simp
  then have 2: "e < ilog2 a + 1"
    using power_int_increasing [of "ilog2 a + 1" e "2::rat"] by (cases "e < ilog2 a + 1") auto
  show ?thesis using 1 2 by simp
qed

lemma round_half_even_of_int: "round_half_even (of_int n) = n"
  by (simp add: round_half_even_def)

lemma ilog2_scaled:
  assumes "1 \<le> M"
  shows "ilog2 (of_int M * 2 powi k) = bitlen M - 1 + k"
proof -
  define b where "b = bitlen M"
  have bb: "2 ^ nat (b - 1) \<le> M \<and> M < 2 ^ nat b"
    unfolding b_def using bitlen_bounds [of M] assms by simp
  have b1: "1 \<le> b"
    unfolding b_def using assms bitlen_ge_iff_power [of 1 M] by simp
  have p: "(0::rat) < 2 powi k" by simp
  have "(2::rat) powi (b - 1) = of_int (2 ^ nat (b - 1))"
    using b1 by (simp add: two_powi_nat)
  also have "\<dots> \<le> of_int M" using bb by (simp only: of_int_le_iff)
  finally have "(2::rat) powi (b - 1) * 2 powi k \<le> of_int M * 2 powi k"
    using p by (simp only: mult_le_cancel_right_pos)
  then have lo: "(2::rat) powi (b - 1 + k) \<le> of_int M * 2 powi k"
    by (simp add: power_int_add)
  have "(of_int M :: rat) < of_int (2 ^ nat b)" using bb by (simp only: of_int_less_iff)
  also have "\<dots> = 2 powi b" using b1 by (simp add: two_powi_nat)
  finally have "(of_int M :: rat) * 2 powi k < 2 powi b * 2 powi k"
    using p by (simp only: mult_less_cancel_right_pos)
  then have hi: "(of_int M :: rat) * 2 powi k < 2 powi (b - 1 + k + 1)"
    by (simp add: power_int_add)
  have "(0::rat) < of_int M * 2 powi k" using assms by simp
  then show ?thesis
    using ilog2_unique [OF _ lo hi] by (simp add: b_def)
qed

text \<open>
  A product that is itself a double is not changed by the rounding.
\<close>

lemma round_double_exact:
  assumes "is_double x"
  shows "round_double x = Fin x"
proof (cases "x = 0")
  case True
  then show ?thesis by (simp add: round_double_def)
next
  case False
  obtain m k where m: "\<bar>m\<bar> < 2 ^ 53" and k: "- 1074 \<le> k" "k \<le> 971"
    and x: "x = of_int m * 2 powi k"
    using assms unfolding is_double_def by blast
  define M where "M = \<bar>m\<bar>"
  define b where "b = bitlen M"
  define E where "E = max (b - 1 + k) (- 1022)"
  define s where "s = k - E + 52"
  have M1: "1 \<le> M" using False x by (auto simp: M_def)
  have a: "\<bar>x\<bar> = of_int M * 2 powi k"
    by (simp add: x M_def abs_mult)
  have bb: "2 ^ nat (b - 1) \<le> M \<and> M < 2 ^ nat b"
    unfolding b_def using bitlen_bounds [of M] M1 by simp
  have b1: "1 \<le> b"
    unfolding b_def using M1 bitlen_ge_iff_power [of 1 M] by simp
  have b53: "b \<le> 53"
    unfolding b_def using m bitlen_le_iff_power [of M 53] by (simp add: M_def)
  have il: "ilog2 \<bar>x\<bar> = b - 1 + k"
    unfolding a b_def by (rule ilog2_scaled [OF M1])
  have s0: "0 \<le> s" using b53 k by (simp add: s_def E_def max_def)
  have E1023: "E \<le> 1023" using b53 k by (simp add: E_def)
  have "\<bar>x\<bar> / 2 powi (E - 52) = of_int M * (2 powi k / 2 powi (E - 52))"
    by (simp add: a)
  also have "2 powi k / (2::rat) powi (E - 52) = 2 powi s"
    by (simp add: s_def power_int_diff [symmetric] algebra_simps)
  also have "(2::rat) powi s = of_int (2 ^ nat s)"
    using s0 by (simp add: two_powi_nat)
  finally have q: "\<bar>x\<bar> / 2 powi (E - 52) = of_int (M * 2 ^ nat s)"
    by simp
  have r: "round_half_even (\<bar>x\<bar> / 2 powi (E - 52)) = M * 2 ^ nat s"
    unfolding q by (rule round_half_even_of_int)
  have recon: "of_int (M * 2 ^ nat s) * 2 powi (E - 52) = \<bar>x\<bar>"
    using q by (simp add: field_simps)
  have small: "E = 1023 \<Longrightarrow> M * 2 ^ nat s < 2 ^ 53"
  proof -
    assume e: "E = 1023"
    then have "E = b - 1 + k" by (simp add: E_def max_def split: if_splits)
    then have sb: "s = 53 - b" by (simp add: s_def)
    have "M * 2 ^ nat s < 2 ^ nat b * 2 ^ nat s" using bb by simp
    also have "\<dots> = 2 ^ (nat b + nat s)" by (simp add: power_add)
    also have "nat b + nat s = 53" using sb b1 b53 by simp
    finally show ?thesis .
  qed
  have novf: "\<not> (1024 \<le> E \<or> (E = 1023 \<and> 2 ^ 53 \<le> M * 2 ^ nat s))"
    using E1023 small by auto
  have "round_double x = Fin (sgn x * \<bar>x\<bar>)"
    using False novf
    by (simp add: round_double_def Let_def il E_def [symmetric] r recon del: of_int_mult)
  then show ?thesis by (simp add: sgn_mult_abs)
qed

lemma round_seven: "round_double (seven_hundredths * 100) = Fin (7 + 1 / 2 ^ 50)"
  unfolding seven_hundredths_def by code_simp

lemma seven_inexact: "(7::rat) + 1 / 2 ^ 50 \<noteq> seven_hundredths * 100"
  by (simp add: seven_hundredths_def)

lemma is_double_seven_hundredths: "is_double seven_hundredths"
  unfolding is_double_def seven_hundredths_def
  by (rule exI [of _ 5044031582654956], rule exI [of _ "- 56"]) (simp add: power_int_minus_divide)

lemma is_double_50: "is_double (1 / 2 * 100)"
  unfolding is_double_def by (rule exI [of _ 50], rule exI [of _ 0]) simp

lemma is_double_25: "is_double (1 / 4 * 100)"
  unfolding is_double_def by (rule exI [of _ 25], rule exI [of _ 0]) simp

lemma field_times_finite: "field_times (Some (Fin f)) k = round_double (f * k)"
  by (simp add: field_times_def to_number_def)

lemma field_times_exact: "is_double (f * k) \<Longrightarrow> field_times (Some (Fin f)) k = Fin (f * k)"
  by (simp add: field_times_finite round_double_exact)

text \<open>
  Counterexample to claim C3 as stated: the current block has humidity 0.07, a fraction
  between 0 and 1. The unified humidity is \<open>7 + 2^-50\<close>, which JavaScript prints as
  \<^verbatim>\<open>7.000000000000001\<close>, and not the product of the fraction and 100.
\<close>

theorem humidity_product_is_inexact:
  "PirateWeatherCurrently.humidity humid_currently = Some (Fin seven_hundredths)
   \<and> 0 \<le> seven_hundredths \<and> seven_hundredths \<le> 1
   \<and> \<not> isl (transformResponse (sample_runtime (FetchResolves forecast))
               (sample_response humid_currently sample_week) ''us'')
   \<and> CurrentWeather.humidity (WeatherData.current (projr
         (transformResponse (sample_runtime (FetchResolves forecast))
            (sample_response humid_currently sample_week) ''us'')))
       = Fin (7 + 1 / 2 ^ 50)
   \<and> CurrentWeather.humidity (WeatherData.current (projr
         (transformResponse (sample_runtime (FetchResolves forecast))
            (sample_response humid_currently sample_week) ''us'')))
       \<noteq> Fin (seven_hundredths * 100)"
proof -
  have h: "PirateWeatherCurrently.humidity humid_currently = Some (Fin seven_hundredths)"
    by (simp add: humid_currently_def)
  have b: "0 \<le> seven_hundredths \<and> seven_hundredths \<le> 1"
    by (simp add: seven_hundredths_def)
  have t: "CurrentWeather.humidity (WeatherData.current (projr
         (transformResponse (sample_runtime (FetchResolves forecast))
            (sample_response humid_currently sample_week) ''us'')))
       = Fin (7 + 1 / 2 ^ 50)"
    by (simp add: transformResponse_def sample_response_def h field_times_finite round_seven)
  have i: "\<not> isl (transformResponse (sample_runtime (FetchResolves forecast))
               (sample_response humid_currently sample_week) ''us'')"
    by (simp add: transformResponse_def sample_response_def)
  show ?thesis using h b t i seven_inexact by simp
qed

text \<open>
  Claim C3, amended: for a finite vendor humidity or cloud cover \<open>f\<close>, in the current
  block and in each daily entry that is kept, the unified value is \<open>f \<times> 100\<close> rounded to
  the nearest double, ties to even; it is \<open>f \<times> 100\<close> itself whenever that product is a
  double.
\<close>

theorem humidity_cloudCover_rounded_product:
  assumes "currently d = Some cur"
    and "PirateWeatherResponse.daily d = Some block"
    and "PirateWeatherDailyBlock.data block = Some days"
  shows "\<exists>out. transformResponse rt d u = Inr out
     \<and> (\<forall>f. PirateWeatherCurrently.humidity cur = Some (Fin f) \<longrightarrow>
            CurrentWeather.humidity (WeatherData.current out) = round_double (f * 100)
            \<and> (is_double (f * 100) \<longrightarrow>
                 CurrentWeather.humidity (WeatherData.current out) = Fin (f * 100)))
     \<and> (\<forall>f. PirateWeatherCurrently.cloudCover cur = Some (Fin f) \<longrightarrow>
            CurrentWeather.cloudCover (WeatherData.current out) = round_double (f * 100)
            \<and> (is_double (f * 100) \<longrightarrow>
                 CurrentWeather.cloudCover (WeatherData.current out) = Fin (f * 100)))
     \<and> (\<forall>i f. i < length (WeatherData.daily out) \<longrightarrow>
            PirateWeatherDaily.humidity (days ! i) = Some (Fin f) \<longrightarrow>
            DailyWeather.humidity (WeatherData.daily out ! i) = round_double (f * 100)
            \<and> (is_double (f * 100) \<longrightarrow>
                 DailyWeather.humidity (WeatherData.daily out ! i) = Fin (f * 100)))
     \<and> (\<forall>i f. i < length (WeatherData.daily out) \<longrightarrow>
            PirateWeatherDaily.cloudCover (days ! i) = Some (Fin f) \<longrightarrow>
            DailyWeather.cloudCover (WeatherData.daily out ! i) = round_double (f * 100)
            \<and> (is_double (f * 100) \<longrightarrow>
                 DailyWeather.cloudCover (WeatherData.daily out ! i) = Fin (f * 100)))"
  using assms
  by (simp add: transformResponse_def transformDailyWeather_def field_times_finite
      round_double_exact)

text \<open>
  Witness for C3: humidity 0.5 gives 50 and cloud cover 0.25 gives 25, both exact; the
  third day has humidity 0.07.
\<close>

theorem humidity_cloudCover_rounded_product_witness:
  "PirateWeatherCurrently.humidity sample_currently = Some (Fin (1 / 2))
   \<and> PirateWeatherCurrently.cloudCover sample_currently = Some (Fin (1 / 4))
   \<and> PirateWeatherDaily.humidity (sample_week ! 2) = Some (Fin seven_hundredths)
   \<and> PirateWeatherDaily.cloudCover (sample_week ! 0) = Some (Fin (1 / 4))
   \<and> is_double (1 / 2 * 100) \<and> is_double (1 / 4 * 100)
   \<and> (\<exists>out. transformResponse (sample_runtime (FetchResolves forecast))
               (sample_response sample_currently sample_week) ''us'' = Inr out
         \<and> CurrentWeather.humidity (WeatherData.current out) = Fin 50
         \<and> CurrentWeather.cloudCover (WeatherData.current out) = Fin 25
         \<and> 2 < length (WeatherData.daily out)
         \<and> DailyWeather.humidity (WeatherData.daily out ! 2) = Fin (7 + 1 / 2 ^ 50)
         \<and> DailyWeather.cloudCover (WeatherData.daily out ! 0) = Fin 25)"
proof -
  let ?d = "sample_response sample_currently sample_week"
  let ?rt = "sample_runtime (FetchResolves forecast)"
  have h: "PirateWeatherCurrently.humidity sample_currently = Some (Fin (1 / 2))"
    and c: "PirateWeatherCurrently.cloudCover sample_currently = Some (Fin (1 / 4))"
    by (simp_all add: sample_currently_def)
  have h2: "PirateWeatherDaily.humidity (sample_week ! 2) = Some (Fin seven_hundredths)"
    and c0: "PirateWeatherDaily.cloudCover (sample_week ! 0) = Some (Fin (1 / 4))"
    by (simp_all add: sample_week_def humid_day_def sample_day_def)
  obtain out where o: "transformResponse ?rt ?d ''us'' = Inr out"
    and oh: "\<forall>f. PirateWeatherCurrently.humidity sample_currently = Some (Fin f) \<longrightarrow>
            CurrentWeather.humidity (WeatherData.current out) = round_double (f * 100)
            \<and> (is_double (f * 100) \<longrightarrow>
                 CurrentWeather.humidity (WeatherData.current out) = Fin (f * 100))"
    and oc: "\<forall>f. PirateWeatherCurrently.cloudCover sample_currently = Some (Fin f) \<longrightarrow>
            CurrentWeather.cloudCover (WeatherData.current out) = round_double (f * 100)
            \<and> (is_double (f * 100) \<longrightarrow>
                 CurrentWeather.cloudCover (WeatherData.current out) = Fin (f * 100))"
    and dh: "\<forall>i f. i < length (WeatherData.daily out) \<longrightarrow>
            PirateWeatherDaily.humidity (sample_week ! i) = Some (Fin f) \<longrightarrow>
            DailyWeather.humidity (WeatherData.daily out ! i) = round_double (f * 100)
            \<and> (is_double (f * 100) \<longrightarrow>
                 DailyWeather.humidity (WeatherData.daily out ! i) = Fin (f * 100))"
    and dc: "\<forall>i f. i < length (WeatherData.daily out) \<longrightarrow>
            PirateWeatherDaily.cloudCover (sample_week ! i) = Some (Fin f) \<longrightarrow>
            DailyWeather.cloudCover (WeatherData.daily out ! i) = round_double (f * 100)
            \<and> (is_double (f * 100) \<longrightarrow>
                 DailyWeather.cloudCover (WeatherData.daily out ! i) = Fin (f * 100))"
    using humidity_cloudCover_rounded_product
      [of ?d sample_currently _ sample_week ?rt "''us''"]
    by (auto simp: sample_response_def)
  have len: "length (WeatherData.daily out) = 7"
    using o by (auto simp: transformResponse_def sample_response_def sample_week_def)
  have 1: "CurrentWeather.humidity (WeatherData.current out) = Fin 50"
    using oh h is_double_50 by fastforce
  have 2: "CurrentWeather.cloudCover (WeatherData.current out) = Fin 25"
    using oc c is_double_25 by fastforce
  have 3: "DailyWeather.humidity (WeatherData.daily out ! 2) = Fin (7 + 1 / 2 ^ 50)"
    using dh h2 len round_seven by fastforce
  have 4: "DailyWeather.cloudCover (WeatherData.daily out ! 0) = Fin 25"
    using dc c0 len is_double_25 by fastforce
  show ?thesis using h c h2 c0 is_double_50 is_double_25 o len 1 2 3 4 by simp
qed

subsection \<open>The sample of the spec, end to end\<close>

text \<open>
  With the sample configuration and the sample response, one URL is requested and the
  result has condition \<open>Sunny\<close>, humidity 50, cloud cover 25 and units
  \<^verbatim>\<open>imperial\<close>.
\<close>

lemma sample_end_to_end:
  "\<not> isl (snd (fetchWeatherAsync (sample_runtime (FetchResolves forecast)) sample_config))
   \<and> fst (fetchWeatherAsync (sample_runtime (FetchResolves forecast)) sample_config)
       = [''https://api.pirateweather.net/forecast/key/40,-105?units=us'']
   \<and> CurrentWeather.conditionUnified (WeatherData.current (projr (snd
         (fetchWeatherAsync (sample_runtime (FetchResolves forecast)) sample_config))))
       = Val Sunny
   \<and> CurrentWeather.humidity (WeatherData.current (projr (snd
         (fetchWeatherAsync (sample_runtime (FetchResolves forecast)) sample_config))))
       = Fin 50
   \<and> CurrentWeather.cloudCover (WeatherData.current (projr (snd
         (fetchWeatherAsync (sample_runtime (FetchResolves forecast)) sample_config))))
       = Fin 25
   \<and> WeatherData.units (projr (snd
         (fetchWeatherAsync (sample_runtime (FetchResolves forecast)) sample_config)))
       = Val ''imperial''"
proof -
  have u: "or_string (WeatherProviderConfig.units sample_config) ''us'' = ''us''"
    by (simp add: sample_config_def or_string_def truthy_field_def truthy_string_def
        template_string_def)
  have l: "build_url (sample_runtime (FetchResolves forecast)) sample_config ''us''
      = ''https://api.pirateweather.net/forecast/key/40,-105?units=us''"
    by (simp add: build_url_def baseUrl_def sample_config_def sample_runtime_def
        template_string_def template_number_def)
  have h: "field_times (Some (Fin (1 / 2))) 100 = Fin 50"
    using field_times_exact [OF is_double_50] by simp
  have c: "field_times (Some (Fin (1 / 4))) 100 = Fin 25"
    using field_times_exact [OF is_double_25] by simp
  have f: "fetch (sample_runtime (FetchResolves forecast)) x = FetchResolves forecast" for x
    by (simp add: sample_runtime_def)
  have k: "ok forecast" by (simp add: ok_def forecast_def)
  have j: "json forecast = JsonResolves (sample_response sample_currently sample_week)"
    by (simp add: forecast_def)
  obtain out where o: "transformResponse (sample_runtime (FetchResolves forecast))
          (sample_response sample_currently sample_week) ''us'' = Inr out"
    by (simp add: transformResponse_def sample_response_def)
  have t: "snd (fetchWeatherAsync (sample_runtime (FetchResolves forecast)) sample_config)
      = Inr out"
    by (simp add: fetchWeatherAsync_valid [OF sample_config_valid] u try_block_def f k j o)
  have r: "fst (fetchWeatherAsync (sample_runtime (FetchResolves forecast)) sample_config)
       = [''https://api.pirateweather.net/forecast/key/40,-105?units=us'']"
    by (simp add: fetchWeatherAsync_valid [OF sample_config_valid] u l)
  have v: "CurrentWeather.conditionUnified (WeatherData.current out) = Val Sunny
     \<and> CurrentWeather.humidity (WeatherData.current out) = Fin 50
     \<and> CurrentWeather.cloudCover (WeatherData.current out) = Fin 25
     \<and> WeatherData.units out = Val ''imperial''"
    using o
    by (auto simp: transformResponse_def sample_response_def sample_currently_def h c
        mapIconToCondition_entries getUnitsDescription_entries)
  show ?thesis
    unfolding t r using v by simp
qed

end
